theory Spec2Isabelle
  imports
    Complex_Main
    "HOL-Library.AList"
    "HOL-Library.Char_ord"
    "HOL-Library.List_Lexorder"
    "HOL-Library.Multiset"
begin

section \<open>Data model (types/db.ts)\<close>

text \<open>
  The rows of the record store, as the TypeScript declarations give them. A nullable
  column is an \<open>option\<close>. Probabilities arrive as JSON numbers, which are finite; they are
  modelled as reals and arithmetic on them is exact (rounding is outside the model).
  \<open>predicted_risk\<close> is declared a string, but \<open>normalizeRiskLabel\<close> accepts null and
  undefined too, so the field is nullable here. Strings are byte strings.
\<close>

record RiskPredictionHistoryRow =
  supplier_id :: string
  prediction_date :: string
  predicted_risk :: "string option"
  prob_high :: "real option"
  prob_medium :: "real option"
  prob_low :: "real option"
  model_version :: "string option"

text \<open>\<open>LatestPrediction = RiskPredictionHistoryRow & { supplier_name?: string }\<close>\<close>

record LatestPrediction = RiskPredictionHistoryRow +
  supplier_name :: "string option"

text \<open>The two columns of \<open>SupplierProfile\<close> that the aggregation reads: id and name.\<close>

type_synonym SupplierProfile = "string \<times> string"

section \<open>String helpers of the language\<close>

text \<open>
  \<open>String.prototype.toLowerCase\<close>, \<open>replaceAll\<close> with one-character arguments and
  \<open>trim\<close>, on ASCII text: the letters A to Z are lowered and the six ASCII white space
  characters are trimmed. The language's functions also lower letters and trim white
  space beyond ASCII (a no-break space at the end of a label, the Kelvin sign); text with
  such characters is outside this model.
\<close>

definition toLowerCaseChar :: "char \<Rightarrow> char" where
  "toLowerCaseChar c =
     (case map_of (zip ''ABCDEFGHIJKLMNOPQRSTUVWXYZ'' ''abcdefghijklmnopqrstuvwxyz'') c of
        Some l \<Rightarrow> l
      | None \<Rightarrow> c)"

definition toLowerCase :: "string \<Rightarrow> string" where
  "toLowerCase s = map toLowerCaseChar s"

definition replaceAll :: "char \<Rightarrow> char \<Rightarrow> string \<Rightarrow> string" where
  "replaceAll a b s = map (\<lambda>c. if c = a then b else c) s"

definition isWhiteSpace :: "char \<Rightarrow> bool" where
  "isWhiteSpace c =
     (c \<in> set [CHR '' '', CHR 0x09, CHR 0x0A, CHR 0x0B, CHR 0x0C, CHR 0x0D])"

definition trim :: "string \<Rightarrow> string" where
  "trim s = rev (dropWhile isWhiteSpace (rev (dropWhile isWhiteSpace s)))"

text \<open>\<open>String.prototype.includes\<close>: the argument occurs as a contiguous substring.\<close>

fun startsWith :: "string \<Rightarrow> string \<Rightarrow> bool" where
  "startsWith s [] = True"
| "startsWith [] (p # ps) = False"
| "startsWith (c # cs) (p # ps) = (c = p \<and> startsWith cs ps)"

fun includes_str :: "string \<Rightarrow> string \<Rightarrow> bool" where
  "includes_str [] sub = (sub = [])"
| "includes_str (c # cs) sub = (startsWith (c # cs) sub \<or> includes_str cs sub)"

section \<open>Risk Aggregator (lib/queries.ts, getExecutiveOverview)\<close>

definition normalizeRiskLabel :: "string option \<Rightarrow> string" where
  "normalizeRiskLabel label =
     trim (replaceAll CHR ''_'' CHR '' '' (toLowerCase (case label of None \<Rightarrow> [] | Some s \<Rightarrow> s)))"

text \<open>
  \<open>supplierRiskCounts\<close> is a \<open>Map\<close> from supplier id to a mutable tally object. A \<open>Map\<close>
  iterates in insertion order, so it is an association list with distinct keys:
  \<open>set\<close> of a new key appends, an update of a present key happens in place.
\<close>

record RiskTally =
  high :: nat
  medium :: nat
  low :: nat
  unknown :: nat

record RiskCounts =
  High :: nat
  Medium :: nat
  Low :: nat
  Unknown :: nat

definition zeroTally :: RiskTally where
  "zeroTally = \<lparr>high = 0, medium = 0, low = 0, unknown = 0\<rparr>"

definition mapHas :: "('k \<times> 'v) list \<Rightarrow> 'k \<Rightarrow> bool" where
  "mapHas m k = (map_of m k \<noteq> None)"

text \<open>The \<open>if\<close>/\<open>else if\<close> chain that increments one field of the supplier's tally.\<close>

definition countLabel :: "string \<Rightarrow> RiskTally \<Rightarrow> RiskTally" where
  "countLabel r counts =
     (if r = ''high risk'' \<or> r = ''high'' then counts\<lparr>high := high counts + 1\<rparr>
      else if r = ''medium risk'' \<or> r = ''medium'' then counts\<lparr>medium := medium counts + 1\<rparr>
      else if r = ''low risk'' \<or> r = ''low'' then counts\<lparr>low := low counts + 1\<rparr>
      else counts\<lparr>unknown := unknown counts + 1\<rparr>)"

text \<open>One iteration of \<open>for (const p of allPredictions)\<close>.\<close>

definition tallyStep ::
  "(string \<times> RiskTally) list \<Rightarrow> RiskPredictionHistoryRow \<Rightarrow> (string \<times> RiskTally) list" where
  "tallyStep m p =
     (let m1 = (if \<not> mapHas m (supplier_id p) then AList.update (supplier_id p) zeroTally m else m)
      in AList.map_entry (supplier_id p) (countLabel (normalizeRiskLabel (predicted_risk p))) m1)"

definition supplierRiskCounts ::
  "RiskPredictionHistoryRow list \<Rightarrow> (string \<times> RiskTally) list" where
  "supplierRiskCounts allPredictions = foldl tallyStep [] allPredictions"

text \<open>
  One iteration of \<open>for (const [supplierId, counts] of supplierRiskCounts)\<close>: the
  maximum of the four tallies, then the chain that increments one global count.
\<close>

definition assignMajority :: "RiskCounts \<Rightarrow> RiskTally \<Rightarrow> RiskCounts" where
  "assignMajority riskCounts counts =
     (let mx = max (max (max (high counts) (medium counts)) (low counts)) (unknown counts)
      in if high counts = mx then riskCounts\<lparr>High := High riskCounts + 1\<rparr>
         else if medium counts = mx then riskCounts\<lparr>Medium := Medium riskCounts + 1\<rparr>
         else if low counts = mx then riskCounts\<lparr>Low := Low riskCounts + 1\<rparr>
         else riskCounts\<lparr>Unknown := Unknown riskCounts + 1\<rparr>)"

definition zeroCounts :: RiskCounts where
  "zeroCounts = \<lparr>High = 0, Medium = 0, Low = 0, Unknown = 0\<rparr>"

definition riskCountsOf :: "RiskPredictionHistoryRow list \<Rightarrow> RiskCounts" where
  "riskCountsOf allPredictions =
     foldl assignMajority zeroCounts (map snd (supplierRiskCounts allPredictions))"

text \<open>
  The priority order as the specification words it: the categories in the order High,
  Medium, Low, Unknown, and the first of them whose tally equals the maximum.
\<close>

datatype RiskCategory = CatHigh | CatMedium | CatLow | CatUnknown

fun tallyOf :: "RiskTally \<Rightarrow> RiskCategory \<Rightarrow> nat" where
  "tallyOf t CatHigh = high t"
| "tallyOf t CatMedium = medium t"
| "tallyOf t CatLow = low t"
| "tallyOf t CatUnknown = unknown t"

definition priorityOrder :: "RiskCategory list" where
  "priorityOrder = [CatHigh, CatMedium, CatLow, CatUnknown]"

definition firstMaxCategory :: "RiskTally \<Rightarrow> RiskCategory option" where
  "firstMaxCategory t =
     find (\<lambda>c. tallyOf t c = Max (set (map (tallyOf t) priorityOrder))) priorityOrder"

fun increment :: "RiskCounts \<Rightarrow> RiskCategory \<Rightarrow> RiskCounts" where
  "increment rc CatHigh = rc\<lparr>High := High rc + 1\<rparr>"
| "increment rc CatMedium = rc\<lparr>Medium := Medium rc + 1\<rparr>"
| "increment rc CatLow = rc\<lparr>Low := Low rc + 1\<rparr>"
| "increment rc CatUnknown = rc\<lparr>Unknown := Unknown rc + 1\<rparr>"

fun countFor :: "RiskCounts \<Rightarrow> RiskCategory \<Rightarrow> nat" where
  "countFor rc CatHigh = High rc"
| "countFor rc CatMedium = Medium rc"
| "countFor rc CatLow = Low rc"
| "countFor rc CatUnknown = Unknown rc"

definition totalCount :: "RiskCounts \<Rightarrow> nat" where
  "totalCount rc = High rc + Medium rc + Low rc + Unknown rc"

subsection \<open>Numbers and \<open>Array.prototype.sort\<close>\<close>

text \<open>
  A value of the type \<open>number\<close>: a finite number, or one of the three values that
  \<open>Number.isFinite\<close> rejects. Only the operations that the ranking code applies are
  defined: subtraction, \<open>Math.abs\<close> and the comparisons with zero.
\<close>

datatype jsnum = Finite real | NaN | PosInfinity | NegInfinity

fun Number_isFinite :: "jsnum \<Rightarrow> bool" where
  "Number_isFinite (Finite r) = True"
| "Number_isFinite v = False"

fun Math_abs :: "jsnum \<Rightarrow> jsnum" where
  "Math_abs (Finite r) = Finite \<bar>r\<bar>"
| "Math_abs NaN = NaN"
| "Math_abs PosInfinity = PosInfinity"
| "Math_abs NegInfinity = PosInfinity"

fun js_minus :: "jsnum \<Rightarrow> jsnum \<Rightarrow> jsnum" where
  "js_minus (Finite a) (Finite b) = Finite (a - b)"
| "js_minus NaN v = NaN"
| "js_minus v NaN = NaN"
| "js_minus PosInfinity PosInfinity = NaN"
| "js_minus NegInfinity NegInfinity = NaN"
| "js_minus PosInfinity v = PosInfinity"
| "js_minus NegInfinity v = NegInfinity"
| "js_minus (Finite a) PosInfinity = NegInfinity"
| "js_minus (Finite a) NegInfinity = PosInfinity"

fun js_gt0 :: "jsnum \<Rightarrow> bool" where
  "js_gt0 (Finite r) = (r > 0)"
| "js_gt0 PosInfinity = True"
| "js_gt0 v = False"

fun js_lt0 :: "jsnum \<Rightarrow> bool" where
  "js_lt0 (Finite r) = (r < 0)"
| "js_lt0 NegInfinity = True"
| "js_lt0 v = False"

fun js_ge0 :: "jsnum \<Rightarrow> bool" where
  "js_ge0 (Finite r) = (r \<ge> 0)"
| "js_ge0 PosInfinity = True"
| "js_ge0 v = False"

text \<open>
  \<open>Array.prototype.sort\<close> with a comparator is stable: \<open>a\<close> is placed after \<open>b\<close> only
  when \<open>cmp(a, b) > 0\<close> (a comparator result of \<open>NaN\<close> counts as zero). The model is
  the stable insertion sort: an element is inserted after exactly the elements of the
  sorted rest that must precede it.
\<close>

fun insertSorted :: "('a \<Rightarrow> 'a \<Rightarrow> jsnum) \<Rightarrow> 'a \<Rightarrow> 'a list \<Rightarrow> 'a list" where
  "insertSorted cmp x [] = [x]"
| "insertSorted cmp x (y # ys) =
     (if js_gt0 (cmp x y) then y # insertSorted cmp x ys else x # y # ys)"

definition jsSort :: "('a \<Rightarrow> 'a \<Rightarrow> jsnum) \<Rightarrow> 'a list \<Rightarrow> 'a list" where
  "jsSort cmp xs = foldr (insertSorted cmp) xs []"

subsection \<open>Average and top ten\<close>

text \<open>\<open>r.prob_high ?? 0\<close>\<close>

definition orZero :: "real option \<Rightarrow> real" where
  "orZero v = (case v of None \<Rightarrow> 0 | Some x \<Rightarrow> x)"

definition avgProbHigh :: "RiskPredictionHistoryRow list \<Rightarrow> real option" where
  "avgProbHigh allPredictions =
     (if length allPredictions = 0 then None
      else Some (foldl (\<lambda>sum r. sum + orZero (prob_high r)) 0 allPredictions
                   / real (length allPredictions)))"

text \<open>
  \<open>new Map(profiles.map((p) => [p.supplier_id, p.supplier_name]))\<close>: a later profile
  with the same id replaces an earlier one.
\<close>

definition nameById :: "SupplierProfile list \<Rightarrow> string \<Rightarrow> string option" where
  "nameById profiles = map_of (rev profiles)"

definition withName ::
  "(string \<Rightarrow> string option) \<Rightarrow> RiskPredictionHistoryRow \<Rightarrow> LatestPrediction" where
  "withName names p =
     \<lparr>supplier_id = supplier_id p, prediction_date = prediction_date p,
      predicted_risk = predicted_risk p, prob_high = prob_high p,
      prob_medium = prob_medium p, prob_low = prob_low p,
      model_version = model_version p, supplier_name = names (supplier_id p)\<rparr>"

definition allWithNames ::
  "SupplierProfile list \<Rightarrow> RiskPredictionHistoryRow list \<Rightarrow> LatestPrediction list" where
  "allWithNames profiles allPredictions = map (withName (nameById profiles)) allPredictions"

text \<open>The comparator \<open>(a, b) => (b.prob_high ?? 0) - (a.prob_high ?? 0)\<close>.\<close>

definition byProbHighDesc :: "LatestPrediction \<Rightarrow> LatestPrediction \<Rightarrow> jsnum" where
  "byProbHighDesc a b = Finite (orZero (prob_high b) - orZero (prob_high a))"

definition topHighRisk ::
  "SupplierProfile list \<Rightarrow> RiskPredictionHistoryRow list \<Rightarrow> LatestPrediction list" where
  "topHighRisk profiles allPredictions =
     take 10 (jsSort byProbHighDesc (allWithNames profiles allPredictions))"

section \<open>Latest-Record Resolver (lib/queries.ts, getLatestPredictionsPerSupplier)\<close>

datatype js_error = Error string | SyntaxError string | TypeError string

text \<open>
  The \<open>{ data, error, count }\<close> answer of a store query; \<open>error\<close> carries its message.
\<close>

record 'a QueryResult =
  data :: "'a list option"
  error :: "string option"
  count :: "nat option"

text \<open>The loop that keeps, for each supplier id, the first row seen.\<close>

definition keepFirst ::
  "(string \<times> RiskPredictionHistoryRow) list \<Rightarrow> RiskPredictionHistoryRow
     \<Rightarrow> (string \<times> RiskPredictionHistoryRow) list" where
  "keepFirst latestBySupplier r =
     (if \<not> mapHas latestBySupplier (supplier_id r)
      then AList.update (supplier_id r) r latestBySupplier else latestBySupplier)"

definition getLatestPredictionsPerSupplier ::
  "RiskPredictionHistoryRow QueryResult \<Rightarrow> js_error + RiskPredictionHistoryRow list" where
  "getLatestPredictionsPerSupplier res =
     (case error res of
        Some msg \<Rightarrow> Inl (Error (''Failed to fetch risk_prediction_history: '' @ msg))
      | None \<Rightarrow>
          (let rows = (case data res of None \<Rightarrow> [] | Some d \<Rightarrow> d)
           in Inr (map snd (foldl keepFirst [] rows))))"

text \<open>
  The query asks the store for \<open>order("supplier_id", ascending)\<close>, then
  \<open>order("prediction_date", descending)\<close>. The store is outside the repository; what it
  returns is a list in that order. Ids and dates are compared as text (an ISO timestamp
  column in one format and zone orders the same way as its text).
\<close>

definition queryOrder :: "RiskPredictionHistoryRow \<Rightarrow> RiskPredictionHistoryRow \<Rightarrow> bool" where
  "queryOrder a b =
     (supplier_id a < supplier_id b
      \<or> (supplier_id a = supplier_id b \<and> prediction_date b \<le> prediction_date a))"

definition orderedAnswer ::
  "RiskPredictionHistoryRow list \<Rightarrow> RiskPredictionHistoryRow list \<Rightarrow> bool" where
  "orderedAnswer table rows = (mset rows = mset table \<and> sorted_wrt queryOrder rows)"

section \<open>Explanation Ranker (lib/queries.ts and the SHAP page)\<close>

text \<open>
  \<open>Record<string, number>\<close>: the entries of the mapping in the order \<open>Object.entries\<close>
  enumerates them. A value is a \<open>number\<close>, as declared. The raw column is
  \<open>Record<string, number> | string | null\<close>.
\<close>

type_synonym ShapDict = "(string \<times> jsnum) list"

datatype ShapRaw = RawNull | RawString string | RawRecord ShapDict

text \<open>
  \<open>JSON.parse\<close> is the language's: it is a parameter, which either throws or returns the
  decoded value. The text \<open>null\<close> decodes to null, which has no entries; every other
  decoded value is taken with the entries that \<open>Object.entries\<close> enumerates.
\<close>

datatype Decoded = DecodedNull | DecodedRecord ShapDict

text \<open>
  The \<open>try\<close>/\<open>catch\<close> around \<open>JSON.parse\<close> is the inner \<open>case\<close> below. The empty string
  is falsy, so \<open>!raw\<close> holds for it as for null.
\<close>

definition parseShapValues ::
  "(string \<Rightarrow> js_error + Decoded) \<Rightarrow> ShapRaw \<Rightarrow> js_error + Decoded" where
  "parseShapValues JSON_parse raw =
     (case raw of
        RawNull \<Rightarrow> Inr (DecodedRecord [])
      | RawString s \<Rightarrow>
          (if s = [] then Inr (DecodedRecord [])
           else (case JSON_parse s of Inr v \<Rightarrow> Inr v | Inl e \<Rightarrow> Inr (DecodedRecord [])))
      | RawRecord m \<Rightarrow> Inr (DecodedRecord m))"

text \<open>\<open>Object.entries(v)\<close> throws a \<open>TypeError\<close> for null.\<close>

fun Object_entries :: "Decoded \<Rightarrow> js_error + ShapDict" where
  "Object_entries DecodedNull = Inl (TypeError ''Cannot convert undefined or null to object'')"
| "Object_entries (DecodedRecord m) = Inr m"

text \<open>\<open>Number(value)\<close> of a value that is a number already.\<close>

definition Number :: "jsnum \<Rightarrow> jsnum" where
  "Number v = v"

text \<open>
  An entry \<open>{ feature, shap }\<close> (the SHAP page names the second field \<open>value\<close>), and the
  entry with its direction.
\<close>

record ShapEntry =
  feature :: string
  shap :: jsnum

datatype Direction = increases | reduces

record TopFeature = ShapEntry +
  direction :: Direction

text \<open>The comparator \<open>(a, b) => Math.abs(b.shap) - Math.abs(a.shap)\<close>.\<close>

definition byAbsDesc :: "ShapEntry \<Rightarrow> ShapEntry \<Rightarrow> jsnum" where
  "byAbsDesc a b = js_minus (Math_abs (shap b)) (Math_abs (shap a))"

definition toEntries :: "ShapDict \<Rightarrow> ShapEntry list" where
  "toEntries shap_values = map (\<lambda>(f, v). \<lparr>feature = f, shap = Number v\<rparr>) shap_values"

text \<open>
  The SHAP page: \<open>shapEntries\<close>, \<open>increasing\<close> and \<open>reducing\<close>, of the mapping
  \<open>latest?.shap_values ?? {}\<close> (null is replaced by the empty mapping there).
\<close>

definition shapEntries :: "ShapDict \<Rightarrow> ShapEntry list" where
  "shapEntries shap_values =
     jsSort byAbsDesc (filter (\<lambda>x. Number_isFinite (shap x)) (toEntries shap_values))"

definition increasing :: "ShapDict \<Rightarrow> ShapEntry list" where
  "increasing shap_values = take 5 (filter (\<lambda>x. js_gt0 (shap x)) (shapEntries shap_values))"

definition reducing :: "ShapDict \<Rightarrow> ShapEntry list" where
  "reducing shap_values = take 5 (filter (\<lambda>x. js_lt0 (shap x)) (shapEntries shap_values))"

text \<open>
  The summary of \<open>getLatest3ShapSummaries\<close>: the constant \<open>top\<close>, of the entries of
  \<open>shapDict\<close>.
\<close>

definition withDirection :: "ShapEntry \<Rightarrow> TopFeature" where
  "withDirection x =
     \<lparr>feature = feature x, shap = shap x,
      direction = (if js_ge0 (shap x) then increases else reduces)\<rparr>"

definition topFeatures :: "ShapDict \<Rightarrow> TopFeature list" where
  "topFeatures shapDict =
     map withDirection
       (take 3 (jsSort byAbsDesc (filter (\<lambda>x. Number_isFinite (shap x)) (toEntries shapDict))))"

text \<open>
  The loop of \<open>getLatest3ShapSummaries\<close> over the latest predictions. The store's answer
  to the explanation query of a prediction is a parameter; of each answered row only the
  \<open>shap_values\<close> column is read. A summary keeps the prediction it is made from (its
  supplier id, date and predicted risk), the supplier name and the top features.
\<close>

record ShapSummary =
  summary_prediction :: RiskPredictionHistoryRow
  summary_supplier_name :: "string option"
  top_features :: "TopFeature list"

text \<open>\<open>shap?.shap_values ?? null\<close>, where \<open>shap\<close> is \<open>shapRows?.[0] ?? null\<close>.\<close>

definition firstShapValues :: "ShapRaw QueryResult \<Rightarrow> ShapRaw" where
  "firstShapValues res =
     (case data res of None \<Rightarrow> RawNull | Some [] \<Rightarrow> RawNull | Some (v # vs) \<Rightarrow> v)"

fun summarize ::
  "(string \<Rightarrow> js_error + Decoded) \<Rightarrow> (RiskPredictionHistoryRow \<Rightarrow> ShapRaw QueryResult)
     \<Rightarrow> (string \<Rightarrow> string option) \<Rightarrow> RiskPredictionHistoryRow list \<Rightarrow> ShapSummary list
     \<Rightarrow> js_error + ShapSummary list" where
  "summarize JSON_parse shapRows names [] summaries = Inr summaries"
| "summarize JSON_parse shapRows names (p # latest3) summaries =
     (case error (shapRows p) of
        Some msg \<Rightarrow> Inl (Error (''Failed to fetch SHAP: '' @ msg))
      | None \<Rightarrow>
          (case parseShapValues JSON_parse (firstShapValues (shapRows p)) of
             Inl e \<Rightarrow> Inl e
           | Inr shapDict \<Rightarrow>
               (case Object_entries shapDict of
                  Inl e \<Rightarrow> Inl e
                | Inr entries \<Rightarrow>
                    summarize JSON_parse shapRows names latest3
                      (summaries @
                        [\<lparr>summary_prediction = p,
                          summary_supplier_name = names (supplier_id p),
                          top_features = topFeatures entries\<rparr>]))))"

text \<open>
  The summary that the loop makes of one prediction whose payload decodes to a mapping:
  it is made of that prediction's own payload only.
\<close>

definition decodedEntries :: "js_error + Decoded \<Rightarrow> ShapDict" where
  "decodedEntries r = (case r of Inr (DecodedRecord m) \<Rightarrow> m | _ \<Rightarrow> [])"

definition summaryOf ::
  "(string \<Rightarrow> js_error + Decoded) \<Rightarrow> (RiskPredictionHistoryRow \<Rightarrow> ShapRaw QueryResult)
     \<Rightarrow> (string \<Rightarrow> string option) \<Rightarrow> RiskPredictionHistoryRow \<Rightarrow> ShapSummary" where
  "summaryOf JSON_parse shapRows names p =
     \<lparr>summary_prediction = p, summary_supplier_name = names (supplier_id p),
      top_features =
        topFeatures (decodedEntries (parseShapValues JSON_parse (firstShapValues (shapRows p))))\<rparr>"

section \<open>Unscored rows (lib/queries.ts, getUnpredictedCount)\<close>

text \<open>
  Of a metric snapshot row the count reads the flag \<open>is_predicted\<close> only. The store
  evaluates the filter \<open>or(is_predicted.eq.false, is_predicted.is.null)\<close> in SQL's
  three-valued logic, where a comparison with null is unknown, and counts the rows for
  which it is true.
\<close>

record SupplierRiskMasterRow =
  is_predicted :: "bool option"

datatype sql_bool = SqlTrue | SqlFalse | SqlUnknown

fun sql_eq :: "bool option \<Rightarrow> bool \<Rightarrow> sql_bool" where
  "sql_eq None v = SqlUnknown"
| "sql_eq (Some b) v = (if b = v then SqlTrue else SqlFalse)"

fun sql_is_null :: "bool option \<Rightarrow> sql_bool" where
  "sql_is_null None = SqlTrue"
| "sql_is_null (Some b) = SqlFalse"

fun sql_or :: "sql_bool \<Rightarrow> sql_bool \<Rightarrow> sql_bool" where
  "sql_or SqlTrue q = SqlTrue"
| "sql_or q SqlTrue = SqlTrue"
| "sql_or SqlFalse SqlFalse = SqlFalse"
| "sql_or p q = SqlUnknown"

definition unpredictedFilter :: "SupplierRiskMasterRow \<Rightarrow> sql_bool" where
  "unpredictedFilter r = sql_or (sql_eq (is_predicted r) False) (sql_is_null (is_predicted r))"

text \<open>\<open>select("*", { head: true, count: "exact" })\<close>: no rows, the exact count.\<close>

definition countUnpredicted :: "SupplierRiskMasterRow list \<Rightarrow> SupplierRiskMasterRow QueryResult" where
  "countUnpredicted table =
     \<lparr>data = None, error = None,
      count = Some (length (filter (\<lambda>r. unpredictedFilter r = SqlTrue) table))\<rparr>"

definition getUnpredictedCount :: "SupplierRiskMasterRow QueryResult \<Rightarrow> js_error + nat" where
  "getUnpredictedCount res =
     (case error res of
        Some msg \<Rightarrow> Inl (Error (''Failed to count unpredicted rows: '' @ msg))
      | None \<Rightarrow> Inr (case count res of None \<Rightarrow> 0 | Some c \<Rightarrow> c))"

section \<open>Pipeline Run Client (lib/airflow.ts, triggerPredictionDag)\<close>

text \<open>
  The response body is decoded to a value of type \<open>any\<close>: a JSON value. An object is the
  list of its members.
\<close>

datatype json =
  JNull | JBool bool | JNumber real | JString string | JArray "json list"
  | JObject "(string \<times> json) list"

text \<open>\<open>data?.name\<close>: the member of an object, undefined for every other value.\<close>

fun getProp :: "json \<Rightarrow> string \<Rightarrow> json option" where
  "getProp (JObject members) name = map_of members name"
| "getProp v name = None"

fun truthy :: "json \<Rightarrow> bool" where
  "truthy JNull = False"
| "truthy (JBool b) = b"
| "truthy (JNumber r) = (r \<noteq> 0)"
| "truthy (JString s) = (s \<noteq> [])"
| "truthy (JArray vs) = True"
| "truthy (JObject members) = True"

text \<open>The decimal digits of the status in the template literal.\<close>

definition digitChar :: "nat \<Rightarrow> char" where
  "digitChar n = ''0123456789'' ! n"

function showNat :: "nat \<Rightarrow> string" where
  "showNat n =
     (if n < 10 then [digitChar n] else showNat (n div 10) @ [digitChar (n mod 10)])"
  by pat_completeness auto
termination
  by (relation "measure id") auto

declare showNat.simps [simp del]

text \<open>The response of \<open>fetch\<close>: it rejects, or gives a status and a body text (which may
  fail to be read).\<close>

datatype FetchResult = Rejects js_error | Response nat "string option"

definition response_ok :: "nat \<Rightarrow> bool" where
  "response_ok status = (200 \<le> status \<and> status \<le> 299)"

text \<open>
  The inner \<open>try\<close>: the decoded body (the variable \<open>data\<close> of the source, here \<open>body\<close>)
  stays \<open>{}\<close> when the text is empty or is not JSON.
\<close>

definition readBody :: "(string \<Rightarrow> js_error + json) \<Rightarrow> string option \<Rightarrow> json" where
  "readBody JSON_parse text =
     (case text of
        None \<Rightarrow> JObject []
      | Some t \<Rightarrow>
          (if t = [] then JObject []
           else (case JSON_parse t of Inl e \<Rightarrow> JObject [] | Inr v \<Rightarrow> v)))"

text \<open>\<open>data?.detail || data?.error || `HTTP ${response.status}`\<close>\<close>

definition errorMsgOf :: "nat \<Rightarrow> json \<Rightarrow> json" where
  "errorMsgOf status body =
     (case getProp body ''detail'' of
        Some d \<Rightarrow>
          (if truthy d then d
           else (case getProp body ''error'' of
                   Some e \<Rightarrow> if truthy e then e else JString (''HTTP '' @ showNat status)
                 | None \<Rightarrow> JString (''HTTP '' @ showNat status)))
      | None \<Rightarrow>
          (case getProp body ''error'' of
             Some e \<Rightarrow> if truthy e then e else JString (''HTTP '' @ showNat status)
           | None \<Rightarrow> JString (''HTTP '' @ showNat status)))"

text \<open>
  \<open>errorMsg.includes(s)\<close>: the substring test of a string, the membership test of an
  array; any other value has no such method and the call throws a \<open>TypeError\<close>.
\<close>

fun js_includes :: "json \<Rightarrow> string \<Rightarrow> js_error + bool" where
  "js_includes (JString t) s = Inr (includes_str t s)"
| "js_includes (JArray vs) s = Inr (JString s \<in> set vs)"
| "js_includes v s = Inl (TypeError ''errorMsg.includes is not a function'')"

record TriggerOutcome =
  success :: bool
  message :: json
  details :: json

fun errorMessage :: "js_error \<Rightarrow> string" where
  "errorMessage (Error m) = m"
| "errorMessage (SyntaxError m) = m"
| "errorMessage (TypeError m) = m"

text \<open>\<open>String(err)\<close>: the name alone when the message is empty.\<close>

fun errorString :: "js_error \<Rightarrow> string" where
  "errorString (Error m) = (if m = [] then ''Error'' else ''Error: '' @ m)"
| "errorString (SyntaxError m) = (if m = [] then ''SyntaxError'' else ''SyntaxError: '' @ m)"
| "errorString (TypeError m) = (if m = [] then ''TypeError'' else ''TypeError: '' @ m)"

text \<open>The outer \<open>catch (err)\<close>.\<close>

definition caught :: "js_error \<Rightarrow> TriggerOutcome" where
  "caught err =
     \<lparr>success = False, message = JString (errorMessage err),
      details = JObject [(''error'', JString (errorString err))]\<rparr>"

definition noNewRows :: "json \<Rightarrow> TriggerOutcome" where
  "noNewRows body =
     \<lparr>success = True,
      message = JString ''No new rows to predict (INFO: all rows already processed)'',
      details = body\<rparr>"

definition triggerPredictionDag ::
  "(string \<Rightarrow> js_error + json) \<Rightarrow> FetchResult \<Rightarrow> TriggerOutcome" where
  "triggerPredictionDag JSON_parse response =
     (case response of
        Rejects err \<Rightarrow> caught err
      | Response status text \<Rightarrow>
          (let body = readBody JSON_parse text in
           if \<not> response_ok status then
             (let errorMsg = errorMsgOf status body in
              case js_includes errorMsg ''No new rows to predict'' of
                Inl err \<Rightarrow> caught err
              | Inr True \<Rightarrow> noNewRows body
              | Inr False \<Rightarrow>
                  (case js_includes errorMsg ''no new rows'' of
                     Inl err \<Rightarrow> caught err
                   | Inr True \<Rightarrow> noNewRows body
                   | Inr False \<Rightarrow> \<lparr>success = False, message = errorMsg, details = body\<rparr>))
           else
             \<lparr>success = True, message = JString ''Airflow DAG triggered successfully!'',
              details = body\<rparr>))"

section \<open>Run Status Poller (app/upload/page.tsx, pollDagStatus)\<close>

text \<open>
  One status check either throws (the fetch or the decoding of its body fails) or gives
  a body with the fields \<open>success\<close> and \<open>data\<close>; \<open>data\<close> is the run, of which the poller
  reads \<open>state\<close>. The status-response sequence is a function from the number of the
  check, starting at 1, to the reply.
\<close>

record DagRun =
  state :: string
  runId :: string

datatype PollReply = PollThrows | PollBody bool "DagRun option"

text \<open>
  What a poll does besides counting: the calls it makes, in order. The pictographs at
  the head of two of the messages are left out of the message texts.
\<close>

datatype Effect =
  FetchStatus nat
  | SetDagStatus string
  | SetTriggering bool
  | RefreshUnpredicted
  | FetchRecentPredictions string
  | SetShowPredictions bool
  | SetTriggerResult bool string
  | SetTimeout nat

definition maxAttempts :: nat where
  "maxAttempts = 60"

function poll :: "(nat \<Rightarrow> PollReply) \<Rightarrow> string \<Rightarrow> nat \<Rightarrow> Effect list \<Rightarrow> nat \<times> Effect list" where
  "poll replies triggerTime attempts trace =
     (let n = attempts + 1; trace1 = trace @ [FetchStatus n] in
      case replies n of
        PollThrows \<Rightarrow>
          (if n < maxAttempts then poll replies triggerTime n (trace1 @ [SetTimeout 5000])
           else (n, trace1 @ [SetTriggering False, SetTriggerResult False ''Error polling DAG status.'']))
      | PollBody ok run \<Rightarrow>
          (case (if ok then run else None) of
             Some r \<Rightarrow>
               (let trace2 = trace1 @ [SetDagStatus (state r)] in
                if state r = ''success'' then
                  (n, trace2 @ [SetTriggering False, RefreshUnpredicted,
                              FetchRecentPredictions triggerTime, SetShowPredictions True])
                else if state r = ''failed'' then
                  (n, trace2 @ [SetTriggering False,
                              SetTriggerResult False ''DAG run failed. Check Airflow for details.''])
                else if state r = ''running'' \<or> state r = ''queued'' then
                  (if n < maxAttempts then poll replies triggerTime n (trace2 @ [SetTimeout 5000])
                   else (n, trace2 @ [SetTriggering False,
                          SetTriggerResult False
                            ''Polling timeout. DAG may still be running. Check Airflow.'']))
                else (n, trace2))
           | None \<Rightarrow>
               (if n < maxAttempts then poll replies triggerTime n (trace1 @ [SetTimeout 5000])
                else (n, trace1 @ [SetTriggering False,
                       SetTriggerResult False ''Failed to fetch DAG status. Check Airflow.''])))) "
  by pat_completeness auto
termination
  by (relation "measure (\<lambda>(replies, triggerTime, attempts, trace). maxAttempts - attempts)") auto

declare poll.simps [simp del]

text \<open>\<open>pollDagStatus\<close>: the counter starts at 0 and the first poll is set 2 s ahead.\<close>

definition pollDagStatus :: "(nat \<Rightarrow> PollReply) \<Rightarrow> string \<Rightarrow> nat \<times> Effect list" where
  "pollDagStatus replies triggerTime = poll replies triggerTime 0 [SetTimeout 2000]"

text \<open>The replies of the claim: a run reported as running or queued.\<close>

definition nonTerminal :: "PollReply \<Rightarrow> bool" where
  "nonTerminal reply =
     (case reply of
        PollThrows \<Rightarrow> False
      | PollBody ok run \<Rightarrow>
          (case run of
             None \<Rightarrow> False
           | Some r \<Rightarrow> ok \<and> (state r = ''running'' \<or> state r = ''queued'')))"

definition isFetch :: "Effect \<Rightarrow> bool" where
  "isFetch e = (case e of FetchStatus n \<Rightarrow> True | _ \<Rightarrow> False)"

text \<open>
  The effects of a poll that neither ends the run nor reports it: a status check, the
  display of the state, the timer of the next poll. The two calls of the timeout branch.
\<close>

definition quiet :: "Effect \<Rightarrow> bool" where
  "quiet e =
     (case e of
        FetchStatus n \<Rightarrow> True | SetDagStatus s \<Rightarrow> True | SetTimeout d \<Rightarrow> True | _ \<Rightarrow> False)"

definition timedOut :: "Effect list" where
  "timedOut =
     [SetTriggering False,
      SetTriggerResult False ''Polling timeout. DAG may still be running. Check Airflow.'']"

section \<open>Inputs of the worked examples\<close>

text \<open>A run that is reported as running at every check.\<close>

definition alwaysRunning :: "nat \<Rightarrow> PollReply" where
  "alwaysRunning n = PollBody True (Some \<lparr>state = ''running'', runId = ''run_1''\<rparr>)"

text \<open>A scripted sequence of run states; past its end the status check throws.\<close>

definition scripted :: "string list \<Rightarrow> nat \<Rightarrow> PollReply" where
  "scripted states n =
     (if 0 < n \<and> n \<le> length states
      then PollBody True (Some \<lparr>state = states ! (n - 1), runId = ''run_1''\<rparr>)
      else PollThrows)"


text \<open>A decoder that rejects every text, and one that returns a given value.\<close>

definition rejectAll :: "string \<Rightarrow> js_error + 'a" where
  "rejectAll t = Inl (SyntaxError ''Unexpected token'')"

definition decodeTo :: "'a \<Rightarrow> string \<Rightarrow> js_error + 'a" where
  "decodeTo v t = Inr v"

text \<open>
  A decoder that behaves as \<open>JSON.parse\<close> on three texts: \<open>null\<close> decodes to null, \<open>{}\<close>
  to the empty mapping, and the text \<open>{not json\<close> is rejected (as is every other text).
\<close>

definition sampleParse :: "string \<Rightarrow> js_error + Decoded" where
  "sampleParse t =
     (if t = ''null'' then Inr DecodedNull
      else if t = ''{}'' then Inr (DecodedRecord [])
      else Inl (SyntaxError ''Unexpected token''))"

text \<open>
  Explanations in the store: a text that does not decode for supplier E1, a decoded
  mapping for every other supplier. In the second store the text of E1 is \<open>null\<close>.
\<close>

definition sampleShapRows :: "RiskPredictionHistoryRow \<Rightarrow> ShapRaw QueryResult" where
  "sampleShapRows p =
     (if supplier_id p = ''E1''
      then \<lparr>data = Some [RawString ''{not json''], error = None, count = None\<rparr>
      else \<lparr>data = Some [RawRecord [(''a'', Finite 0.5)]], error = None, count = None\<rparr>)"

definition nullTextShapRows :: "RiskPredictionHistoryRow \<Rightarrow> ShapRaw QueryResult" where
  "nullTextShapRows p =
     (if supplier_id p = ''E1''
      then \<lparr>data = Some [RawString ''null''], error = None, count = None\<rparr>
      else \<lparr>data = Some [RawRecord [(''a'', Finite 0.5)]], error = None, count = None\<rparr>)"

text \<open>A row for the worked examples: supplier id, date and \<open>prob_high\<close>.\<close>

definition sampleRow :: "string \<Rightarrow> string \<Rightarrow> real option \<Rightarrow> RiskPredictionHistoryRow" where
  "sampleRow s d p =
     \<lparr>supplier_id = s, prediction_date = d, predicted_risk = Some ''High'', prob_high = p,
      prob_medium = None, prob_low = None, model_version = None\<rparr>"

section \<open>Majority classification\<close>

lemma max_of_priorityOrder:
  "Max (set (map (tallyOf t) priorityOrder)) =
     max (max (max (high t) (medium t)) (low t)) (unknown t)"
  by (simp add: priorityOrder_def max.commute max.left_commute)

lemma assignMajority_increment:
  "\<exists>c. firstMaxCategory t = Some c \<and> assignMajority rc t = increment rc c"
  unfolding firstMaxCategory_def max_of_priorityOrder
  by (auto simp: priorityOrder_def assignMajority_def Let_def max_def)

text \<open>
  C1. The step that assigns a supplier to its majority category increments the global
  count of the first category, in the order High, Medium, Low, Unknown, whose tally equals
  the maximum of the four tallies; such a category always exists. The tally
  (2, 2, 0, 0) is counted as High, the tally (0, 3, 3, 0) as Medium.
\<close>

theorem assignMajority_first_max:
  "(\<exists>c. firstMaxCategory t = Some c \<and> assignMajority rc t = increment rc c)
   \<and> assignMajority rc \<lparr>high = 2, medium = 2, low = 0, unknown = 0\<rparr> = increment rc CatHigh
   \<and> assignMajority rc \<lparr>high = 0, medium = 3, low = 3, unknown = 0\<rparr> = increment rc CatMedium"
proof (intro conjI)
  show "\<exists>c. firstMaxCategory t = Some c \<and> assignMajority rc t = increment rc c"
    by (rule assignMajority_increment)
  show "assignMajority rc \<lparr>high = 2, medium = 2, low = 0, unknown = 0\<rparr> = increment rc CatHigh"
    by (simp add: assignMajority_def)
  show "assignMajority rc \<lparr>high = 0, medium = 3, low = 3, unknown = 0\<rparr> = increment rc CatMedium"
    by (simp add: assignMajority_def)
qed

section \<open>Global category counts\<close>

lemma keys_map_entry: "map fst (AList.map_entry k f xs) = map fst xs"
  by (induction xs) auto

lemma keys_tallyStep:
  "map fst (tallyStep m p) =
     (if supplier_id p \<in> set (map fst m) then map fst m else map fst m @ [supplier_id p])"
  by (auto simp: tallyStep_def Let_def mapHas_def keys_map_entry AList.update_keys
      map_of_eq_None_iff)

lemma supplierRiskCounts_snoc:
  "supplierRiskCounts (ps @ [p]) = tallyStep (supplierRiskCounts ps) p"
  by (simp add: supplierRiskCounts_def)

lemma keys_supplierRiskCounts:
  "distinct (map fst (supplierRiskCounts ps)) \<and>
   set (map fst (supplierRiskCounts ps)) = supplier_id ` set ps"
proof (induction ps rule: rev_induct)
  case Nil
  show ?case by (simp add: supplierRiskCounts_def)
next
  case (snoc p ps)
  then show ?case
    by (auto simp: supplierRiskCounts_snoc keys_tallyStep)
qed

lemma totalCount_assignMajority: "totalCount (assignMajority rc t) = Suc (totalCount rc)"
  by (simp add: assignMajority_def totalCount_def Let_def)

lemma totalCount_foldl:
  "totalCount (foldl assignMajority rc ts) = totalCount rc + length ts"
  by (induction ts arbitrary: rc) (simp_all add: totalCount_assignMajority)

lemma countFor_increment:
  "countFor (increment rc c') c = countFor rc c + (if c' = c then 1 else 0)"
  by (cases c'; cases c) simp_all

lemma countFor_assignMajority:
  "countFor (assignMajority rc t) c = countFor rc c + (if firstMaxCategory t = Some c then 1 else 0)"
proof -
  from assignMajority_increment [of t rc] obtain c' where
    c': "firstMaxCategory t = Some c'" "assignMajority rc t = increment rc c'"
    by blast
  then show ?thesis by (simp add: countFor_increment)
qed

lemma countFor_foldl:
  "countFor (foldl assignMajority rc ts) c
     = countFor rc c + length (filter (\<lambda>t. firstMaxCategory t = Some c) ts)"
  by (induction ts arbitrary: rc) (simp_all add: countFor_assignMajority)

text \<open>
  Three suppliers: E1 with two High and one Medium, E2 with two Low (written in other
  letter case and with an underscore), E3 with an unknown label.
\<close>

lemma riskCounts_example:
  "riskCountsOf
     [(sampleRow ''E1'' ''2024-01-01'' None)\<lparr>predicted_risk := Some ''High''\<rparr>,
      (sampleRow ''E2'' ''2024-01-01'' None)\<lparr>predicted_risk := Some ''LOW_RISK''\<rparr>,
      (sampleRow ''E1'' ''2024-01-02'' None)\<lparr>predicted_risk := Some ''medium''\<rparr>,
      (sampleRow ''E3'' ''2024-01-01'' None)\<lparr>predicted_risk := None\<rparr>,
      (sampleRow ''E1'' ''2024-01-03'' None)\<lparr>predicted_risk := Some '' high risk ''\<rparr>,
      (sampleRow ''E2'' ''2024-01-02'' None)\<lparr>predicted_risk := Some ''Low''\<rparr>]
   = \<lparr>High = 1, Medium = 0, Low = 1, Unknown = 1\<rparr>"
  by (simp add: riskCountsOf_def supplierRiskCounts_def tallyStep_def mapHas_def sampleRow_def
      normalizeRiskLabel_def trim_def replaceAll_def toLowerCase_def toLowerCaseChar_def
      isWhiteSpace_def countLabel_def zeroTally_def zeroCounts_def assignMajority_def)

text \<open>
  C2. For every list of prediction records, the four global counts High, Medium, Low and
  Unknown add up to the number of distinct supplier ids among the records. The tally map
  holds each supplier id of the records once, and the count of a category is the number
  of its entries whose majority category (the first of maximal tally) is that category:
  every supplier is counted in exactly one of the four.
\<close>

theorem riskCounts_sum_distinct_suppliers:
  "High (riskCountsOf ps) + Medium (riskCountsOf ps) + Low (riskCountsOf ps)
     + Unknown (riskCountsOf ps) = card (supplier_id ` set ps)
   \<and> distinct (map fst (supplierRiskCounts ps))
   \<and> set (map fst (supplierRiskCounts ps)) = supplier_id ` set ps
   \<and> (\<forall>c. countFor (riskCountsOf ps) c
          = length (filter (\<lambda>t. firstMaxCategory t = Some c) (map snd (supplierRiskCounts ps))))"
proof (intro conjI allI)
  have "totalCount (riskCountsOf ps) = length (map fst (supplierRiskCounts ps))"
  proof -
    have "totalCount zeroCounts = 0" by (simp add: totalCount_def zeroCounts_def)
    then show ?thesis by (simp add: riskCountsOf_def totalCount_foldl)
  qed
  also have "\<dots> = card (set (map fst (supplierRiskCounts ps)))"
    using keys_supplierRiskCounts [of ps] distinct_card by metis
  also have "\<dots> = card (supplier_id ` set ps)"
    using keys_supplierRiskCounts [of ps] by metis
  finally show "High (riskCountsOf ps) + Medium (riskCountsOf ps) + Low (riskCountsOf ps)
     + Unknown (riskCountsOf ps) = card (supplier_id ` set ps)"
    by (simp add: totalCount_def)
  show "distinct (map fst (supplierRiskCounts ps))"
    using keys_supplierRiskCounts [of ps] by blast
  show "set (map fst (supplierRiskCounts ps)) = supplier_id ` set ps"
    using keys_supplierRiskCounts [of ps] by blast
  show "countFor (riskCountsOf ps) c
          = length (filter (\<lambda>t. firstMaxCategory t = Some c) (map snd (supplierRiskCounts ps)))"
    for c
  proof -
    have "countFor zeroCounts c = 0" by (cases c) (simp_all add: zeroCounts_def)
    then show ?thesis by (simp add: riskCountsOf_def countFor_foldl)
  qed
qed

section \<open>Average of \<open>prob_high\<close>\<close>

lemma foldl_add_orZero:
  "foldl (\<lambda>sum r. sum + orZero (prob_high r)) a ps = a + (\<Sum>r\<leftarrow>ps. orZero (prob_high r))"
  by (induction ps arbitrary: a) (simp_all add: add.assoc)

text \<open>
  C7. The average is the arithmetic mean of \<open>prob_high\<close> over all prediction records, every
  record counted (several records of one supplier all enter), a null \<open>prob_high\<close> entering
  as 0; for no records the result is null. For the values 0.2, null, 0.6 it is
  (0.2 + 0 + 0.6) / 3.
\<close>

theorem avgProbHigh_mean:
  "avgProbHigh ps =
     (if ps = [] then None
      else Some ((\<Sum>r\<leftarrow>ps. case prob_high r of None \<Rightarrow> 0 | Some v \<Rightarrow> v) / real (length ps)))
   \<and> avgProbHigh [] = None
   \<and> avgProbHigh [sampleRow ''E1'' ''2024-01-01'' (Some 0.2), sampleRow ''E1'' ''2024-02-01'' None,
                   sampleRow ''E2'' ''2024-01-15'' (Some 0.6)] = Some ((0.2 + 0 + 0.6) / 3)"
proof (intro conjI)
  have "orZero = (\<lambda>v. case v of None \<Rightarrow> 0 | Some x \<Rightarrow> x)"
    by (rule ext) (simp add: orZero_def)
  then show "avgProbHigh ps =
     (if ps = [] then None
      else Some ((\<Sum>r\<leftarrow>ps. case prob_high r of None \<Rightarrow> 0 | Some v \<Rightarrow> v) / real (length ps)))"
    by (simp add: avgProbHigh_def foldl_add_orZero)
  show "avgProbHigh [] = None"
    by (simp add: avgProbHigh_def)
  show "avgProbHigh [sampleRow ''E1'' ''2024-01-01'' (Some 0.2), sampleRow ''E1'' ''2024-02-01'' None,
                   sampleRow ''E2'' ''2024-01-15'' (Some 0.6)] = Some ((0.2 + 0 + 0.6) / 3)"
    by (simp add: avgProbHigh_def sampleRow_def orZero_def)
qed

section \<open>Sorting with a comparator\<close>

lemma insertSorted_insort_key:
  assumes "\<And>y. y \<in> set ys \<Longrightarrow> js_gt0 (cmp x y) \<longleftrightarrow> f y < f x"
  shows "insertSorted cmp x ys = insort_key f x ys"
  using assms by (induction ys) auto

text \<open>
  Where the comparator agrees with a key on the elements of the list, the sort is the
  stable insertion sort by that key.
\<close>

lemma jsSort_sort_key:
  assumes "\<And>x y. x \<in> set xs \<Longrightarrow> y \<in> set xs \<Longrightarrow> js_gt0 (cmp x y) \<longleftrightarrow> f y < f x"
  shows "jsSort cmp xs = sort_key f xs"
  using assms
proof (induction xs)
  case Nil
  show ?case by (simp add: jsSort_def)
next
  case (Cons x xs)
  have IH: "jsSort cmp xs = sort_key f xs"
    using Cons by simp
  have "jsSort cmp (x # xs) = insertSorted cmp x (sort_key f xs)"
    using IH by (simp add: jsSort_def)
  also have "\<dots> = insort_key f x (sort_key f xs)"
    by (rule insertSorted_insort_key) (simp add: Cons.prems)
  finally show ?case by simp
qed

lemma insertSorted_map:
  "insertSorted cmp (w x) (map w ys) = map w (insertSorted (\<lambda>a b. cmp (w a) (w b)) x ys)"
  by (induction ys) simp_all

lemma jsSort_map:
  "jsSort cmp (map w xs) = map w (jsSort (\<lambda>a b. cmp (w a) (w b)) xs)"
  by (induction xs) (simp_all add: jsSort_def insertSorted_map)

lemma topHighRisk_sort_key:
  "topHighRisk profiles ps =
     map (withName (nameById profiles))
       (take 10 (sort_key (\<lambda>r. - (case prob_high r of None \<Rightarrow> 0 | Some v \<Rightarrow> v)) ps))"
proof -
  let ?w = "withName (nameById profiles)"
  let ?f = "\<lambda>r::RiskPredictionHistoryRow. - (case prob_high r of None \<Rightarrow> 0 | Some v \<Rightarrow> v)"
  have "jsSort (\<lambda>a b. byProbHighDesc (?w a) (?w b)) ps = sort_key ?f ps"
    by (rule jsSort_sort_key)
      (auto simp: byProbHighDesc_def withName_def orZero_def split: option.splits)
  then show ?thesis
    by (simp add: topHighRisk_def allWithNames_def jsSort_map take_map)
qed

section \<open>Top ten by \<open>prob_high\<close>\<close>

text \<open>
  C6. For every list of prediction records there is a rearrangement of the records that
  is in descending order of \<open>prob_high\<close>, a null \<open>prob_high\<close> counting as 0, in which the
  records of equal \<open>prob_high\<close> keep their input order; the top-ten list is its first 10
  records, each with the supplier name attached, so it has 10 records or all of them.
  For the values 0.9, 0.1, 0.9, 0.5 the result is the first, the third, the fourth and
  then the second record. For the values null, -0.5, 0.5, 0 it is the third, then the
  first (the null one, before the 0 that follows it in the input), the fourth and the
  second.
\<close>

theorem topHighRisk_sorted_stable:
  "(\<exists>sorted.
      topHighRisk profiles ps = map (withName (nameById profiles)) (take 10 sorted)
      \<and> mset sorted = mset ps
      \<and> sorted_wrt (\<lambda>a b. (case prob_high a of None \<Rightarrow> 0 | Some v \<Rightarrow> v)
                           \<ge> (case prob_high b of None \<Rightarrow> 0 | Some v \<Rightarrow> v)) sorted
      \<and> (\<forall>k. filter (\<lambda>r. (case prob_high r of None \<Rightarrow> 0 | Some v \<Rightarrow> v) = k) sorted
             = filter (\<lambda>r. (case prob_high r of None \<Rightarrow> 0 | Some v \<Rightarrow> v) = k) ps))
   \<and> length (topHighRisk profiles ps) = min 10 (length ps)
   \<and> topHighRisk [] [sampleRow ''A'' ''2024-01-01'' (Some 0.9), sampleRow ''B'' ''2024-01-01'' (Some 0.1),
                     sampleRow ''C'' ''2024-01-01'' (Some 0.9), sampleRow ''D'' ''2024-01-01'' (Some 0.5)]
       = map (withName (nameById []))
           [sampleRow ''A'' ''2024-01-01'' (Some 0.9), sampleRow ''C'' ''2024-01-01'' (Some 0.9),
            sampleRow ''D'' ''2024-01-01'' (Some 0.5), sampleRow ''B'' ''2024-01-01'' (Some 0.1)]
   \<and> topHighRisk [] [sampleRow ''N'' ''2024-01-01'' None, sampleRow ''A'' ''2024-01-01'' (Some (- 0.5)),
                     sampleRow ''B'' ''2024-01-01'' (Some 0.5), sampleRow ''C'' ''2024-01-01'' (Some 0)]
       = map (withName (nameById []))
           [sampleRow ''B'' ''2024-01-01'' (Some 0.5), sampleRow ''N'' ''2024-01-01'' None,
            sampleRow ''C'' ''2024-01-01'' (Some 0), sampleRow ''A'' ''2024-01-01'' (Some (- 0.5))]"
proof (intro conjI)
  let ?key = "\<lambda>r::RiskPredictionHistoryRow. case prob_high r of None \<Rightarrow> 0 | Some v \<Rightarrow> (v::real)"
  let ?f = "\<lambda>r. - ?key r"
  let ?S = "sort_key ?f ps"
  have top: "topHighRisk profiles ps = map (withName (nameById profiles)) (take 10 ?S)"
    by (rule topHighRisk_sort_key)
  have perm: "mset ?S = mset ps"
    by simp
  have "sorted (map ?f ?S)"
    by (rule sorted_sort_key)
  then have desc: "sorted_wrt (\<lambda>a b. ?key a \<ge> ?key b) ?S"
    by (simp add: sorted_map)
  have stable: "filter (\<lambda>r. ?key r = k) ?S = filter (\<lambda>r. ?key r = k) ps" for k
    using sort_key_stable [of ?f "- k" ps] by simp
  from top perm desc stable
  show "\<exists>sorted.
      topHighRisk profiles ps = map (withName (nameById profiles)) (take 10 sorted)
      \<and> mset sorted = mset ps
      \<and> sorted_wrt (\<lambda>a b. ?key a \<ge> ?key b) sorted
      \<and> (\<forall>k. filter (\<lambda>r. ?key r = k) sorted = filter (\<lambda>r. ?key r = k) ps)"
    by (intro exI [of _ ?S] conjI allI)
  show "length (topHighRisk profiles ps) = min 10 (length ps)"
    by (simp add: top min.commute)
  show "topHighRisk [] [sampleRow ''A'' ''2024-01-01'' (Some 0.9), sampleRow ''B'' ''2024-01-01'' (Some 0.1),
                     sampleRow ''C'' ''2024-01-01'' (Some 0.9), sampleRow ''D'' ''2024-01-01'' (Some 0.5)]
       = map (withName (nameById []))
           [sampleRow ''A'' ''2024-01-01'' (Some 0.9), sampleRow ''C'' ''2024-01-01'' (Some 0.9),
            sampleRow ''D'' ''2024-01-01'' (Some 0.5), sampleRow ''B'' ''2024-01-01'' (Some 0.1)]"
    by (simp add: topHighRisk_def allWithNames_def withName_def sampleRow_def jsSort_def
        byProbHighDesc_def orZero_def)
  show "topHighRisk [] [sampleRow ''N'' ''2024-01-01'' None, sampleRow ''A'' ''2024-01-01'' (Some (- 0.5)),
                     sampleRow ''B'' ''2024-01-01'' (Some 0.5), sampleRow ''C'' ''2024-01-01'' (Some 0)]
       = map (withName (nameById []))
           [sampleRow ''B'' ''2024-01-01'' (Some 0.5), sampleRow ''N'' ''2024-01-01'' None,
            sampleRow ''C'' ''2024-01-01'' (Some 0), sampleRow ''A'' ''2024-01-01'' (Some (- 0.5))]"
    by (simp add: topHighRisk_def allWithNames_def withName_def sampleRow_def jsSort_def
        byProbHighDesc_def orZero_def)
qed

section \<open>Latest record per supplier\<close>

lemma keys_keepFirst:
  "map fst (keepFirst m r) =
     (if supplier_id r \<in> set (map fst m) then map fst m else map fst m @ [supplier_id r])"
  by (auto simp: keepFirst_def mapHas_def AList.update_keys map_of_eq_None_iff)

lemma keys_foldl_keepFirst:
  "distinct (map fst (foldl keepFirst [] rows)) \<and>
   set (map fst (foldl keepFirst [] rows)) = supplier_id ` set rows"
  by (induction rows rule: rev_induct) (auto simp: keys_keepFirst)

lemma map_of_keepFirst:
  "map_of (keepFirst m r) k =
     (case map_of m k of Some v \<Rightarrow> Some v
      | None \<Rightarrow> if supplier_id r = k then Some r else None)"
  by (auto simp: keepFirst_def mapHas_def AList.update_conv' split: option.splits)

lemma map_of_foldl_keepFirst:
  "map_of (foldl keepFirst m rows) k =
     (case map_of m k of Some v \<Rightarrow> Some v
      | None \<Rightarrow> find (\<lambda>r. supplier_id r = k) rows)"
  by (induction rows arbitrary: m) (auto simp: map_of_keepFirst split: option.splits)

lemma find_SomeD: "find P xs = Some x \<Longrightarrow> P x \<and> x \<in> set xs"
  by (induction xs) (auto split: if_splits)

lemma find_first_is_latest:
  assumes "sorted_wrt queryOrder rows"
    and "find (\<lambda>x. supplier_id x = k) rows = Some r"
    and "r' \<in> set rows" and "supplier_id r' = k"
  shows "prediction_date r' \<le> prediction_date r"
  using assms
proof (induction rows)
  case Nil
  then show ?case by simp
next
  case (Cons a rows)
  show ?case
  proof (cases "supplier_id a = k")
    case True
    with Cons.prems have "r = a" by simp
    show ?thesis
    proof (cases "r' = a")
      case True
      with \<open>r = a\<close> show ?thesis by simp
    next
      case False
      with Cons.prems have "r' \<in> set rows" by simp
      with Cons.prems have "queryOrder a r'" by simp
      with True Cons.prems \<open>r = a\<close> show ?thesis by (simp add: queryOrder_def)
    qed
  next
    case False
    with Cons.prems have "r' \<in> set rows" by auto
    with Cons False show ?thesis by simp
  qed
qed

text \<open>
  C3. Let the store answer the query with all the records of the table in the order it
  was asked for (supplier id ascending, then date descending). Then the resolver returns,
  without error, exactly one record for each supplier id of the table; the record chosen
  for a supplier is one of the table's, no record of that supplier has a later date, and
  it is the first record of that supplier in the answer. An empty or missing answer
  gives the empty result.
\<close>

theorem latest_per_supplier:
  assumes "orderedAnswer table rows"
  shows "(\<exists>out. getLatestPredictionsPerSupplier \<lparr>data = Some rows, error = None, count = None\<rparr> = Inr out
     \<and> distinct (map supplier_id out)
     \<and> set (map supplier_id out) = supplier_id ` set table
     \<and> (\<forall>r \<in> set out. r \<in> set table
           \<and> (\<forall>r' \<in> set table. supplier_id r' = supplier_id r
                 \<longrightarrow> prediction_date r' \<le> prediction_date r)
           \<and> find (\<lambda>x. supplier_id x = supplier_id r) rows = Some r))
     \<and> getLatestPredictionsPerSupplier \<lparr>data = Some [], error = None, count = None\<rparr> = Inr []
     \<and> getLatestPredictionsPerSupplier \<lparr>data = None, error = None, count = None\<rparr> = Inr []"
proof -
  define m where "m = foldl keepFirst [] rows"
  from assms have st: "set rows = set table" and srt: "sorted_wrt queryOrder rows"
    by (auto simp: orderedAnswer_def dest: mset_eq_setD)
  have res: "getLatestPredictionsPerSupplier \<lparr>data = Some rows, error = None, count = None\<rparr> = Inr (map snd m)"
    by (simp add: getLatestPredictionsPerSupplier_def m_def)
  have dk: "distinct (map fst m)" and sk: "set (map fst m) = supplier_id ` set rows"
    using keys_foldl_keepFirst [of rows] by (simp_all add: m_def)
  have entry: "find (\<lambda>x. supplier_id x = k) rows = Some r" if "(k, r) \<in> set m" for k r
  proof -
    from that dk have "map_of m k = Some r" by simp
    then show ?thesis by (simp add: m_def map_of_foldl_keepFirst)
  qed
  have key: "supplier_id r = k" if "(k, r) \<in> set m" for k r
    using entry [OF that] find_SomeD by fastforce
  have ids: "map supplier_id (map snd m) = map fst m"
    using key by (induction m) auto
  have each: "r \<in> set table
           \<and> (\<forall>r' \<in> set table. supplier_id r' = supplier_id r
                 \<longrightarrow> prediction_date r' \<le> prediction_date r)
           \<and> find (\<lambda>x. supplier_id x = supplier_id r) rows = Some r"
    if "r \<in> set (map snd m)" for r
  proof -
    from that obtain k where km: "(k, r) \<in> set m" by auto
    have k: "supplier_id r = k" by (rule key [OF km])
    have f: "find (\<lambda>x. supplier_id x = k) rows = Some r" by (rule entry [OF km])
    from f have "r \<in> set rows" using find_SomeD by fastforce
    moreover have "prediction_date r' \<le> prediction_date r"
      if "r' \<in> set table" "supplier_id r' = supplier_id r" for r'
      using find_first_is_latest [OF srt f] that st k by simp
    ultimately show ?thesis using st f k by simp
  qed
  have d2: "distinct (map supplier_id (map snd m))" using dk by (simp only: ids)
  have s2: "set (map supplier_id (map snd m)) = supplier_id ` set table"
    using sk st by (simp only: ids)
  have e1: "getLatestPredictionsPerSupplier \<lparr>data = Some [], error = None, count = None\<rparr> = Inr []"
    by (simp add: getLatestPredictionsPerSupplier_def)
  have e2: "getLatestPredictionsPerSupplier \<lparr>data = None, error = None, count = None\<rparr> = Inr []"
    by (simp add: getLatestPredictionsPerSupplier_def)
  show ?thesis
    using res d2 s2 each e1 e2 by blast
qed

theorem latest_per_supplier_witness:
  "orderedAnswer
     [sampleRow ''E1'' ''2024-01-01'' None, sampleRow ''E2'' ''2024-01-15'' None,
      sampleRow ''E1'' ''2024-02-01'' None]
     [sampleRow ''E1'' ''2024-02-01'' None, sampleRow ''E1'' ''2024-01-01'' None,
      sampleRow ''E2'' ''2024-01-15'' None]
   \<and> getLatestPredictionsPerSupplier
       \<lparr>data = Some [sampleRow ''E1'' ''2024-02-01'' None, sampleRow ''E1'' ''2024-01-01'' None,
                     sampleRow ''E2'' ''2024-01-15'' None], error = None, count = None\<rparr>
     = Inr [sampleRow ''E1'' ''2024-02-01'' None, sampleRow ''E2'' ''2024-01-15'' None]
   \<and> getLatestPredictionsPerSupplier \<lparr>data = Some [], error = None, count = None\<rparr> = Inr []"
proof -
  let ?table = "[sampleRow ''E1'' ''2024-01-01'' None, sampleRow ''E2'' ''2024-01-15'' None,
      sampleRow ''E1'' ''2024-02-01'' None]"
  let ?rows = "[sampleRow ''E1'' ''2024-02-01'' None, sampleRow ''E1'' ''2024-01-01'' None,
      sampleRow ''E2'' ''2024-01-15'' None]"
  have h: "orderedAnswer ?table ?rows"
    by (simp add: orderedAnswer_def queryOrder_def sampleRow_def)
  have r: "getLatestPredictionsPerSupplier \<lparr>data = Some ?rows, error = None, count = None\<rparr>
     = Inr [sampleRow ''E1'' ''2024-02-01'' None, sampleRow ''E2'' ''2024-01-15'' None]"
    by (simp add: getLatestPredictionsPerSupplier_def keepFirst_def mapHas_def sampleRow_def)
  from latest_per_supplier [OF h] h r show ?thesis by blast
qed

section \<open>Explanation ranking\<close>




text \<open>The detail view on an example: the entry of value 0 is in neither list.\<close>

lemma detail_view_example:
  "increasing [(''a'', Finite 0.5), (''b'', Finite (- 0.8)), (''z'', Finite 0),
               (''c'', Finite 0.1), (''d'', PosInfinity)]
     = [\<lparr>feature = ''a'', shap = Finite 0.5\<rparr>, \<lparr>feature = ''c'', shap = Finite 0.1\<rparr>]
   \<and> reducing [(''a'', Finite 0.5), (''b'', Finite (- 0.8)), (''z'', Finite 0),
                (''c'', Finite 0.1), (''d'', PosInfinity)]
     = [\<lparr>feature = ''b'', shap = Finite (- 0.8)\<rparr>]"
  by (simp add: increasing_def reducing_def shapEntries_def toEntries_def Number_def jsSort_def
      byAbsDesc_def)

section \<open>Decoding of the explanation payload\<close>

lemma parseShapValues_returns: "\<exists>v. parseShapValues JSON_parse raw = Inr v"
  by (auto simp: parseShapValues_def split: ShapRaw.splits sum.splits)

lemma summarize_append:
  assumes "list_all (\<lambda>p. error (shapRows p) = None
             \<and> parseShapValues JSON_parse (firstShapValues (shapRows p)) \<noteq> Inr DecodedNull) latest3"
  shows "summarize JSON_parse shapRows names latest3 acc
           = Inr (acc @ map (summaryOf JSON_parse shapRows names) latest3)"
  using assms
proof (induction latest3 arbitrary: acc)
  case Nil
  then show ?case by simp
next
  case (Cons p ps)
  let ?r = "parseShapValues JSON_parse (firstShapValues (shapRows p))"
  from Cons.prems have e: "error (shapRows p) = None" and n: "?r \<noteq> Inr DecodedNull"
    by simp_all
  obtain v where v: "?r = Inr v"
    using parseShapValues_returns by blast
  with n obtain m where m: "?r = Inr (DecodedRecord m)"
    by (cases v) auto
  have s: "summaryOf JSON_parse shapRows names p
             = \<lparr>summary_prediction = p, summary_supplier_name = names (supplier_id p),
                top_features = topFeatures m\<rparr>"
    by (simp add: summaryOf_def decodedEntries_def m)
  have "summarize JSON_parse shapRows names (p # ps) acc
          = summarize JSON_parse shapRows names ps (acc @ [summaryOf JSON_parse shapRows names p])"
    using e m by (simp add: s)
  also have "\<dots> = Inr ((acc @ [summaryOf JSON_parse shapRows names p])
                       @ map (summaryOf JSON_parse shapRows names) ps)"
    using Cons.prems by (intro Cons.IH) simp
  finally show ?case by simp
qed

text \<open>
  C9. Decoding returns a value for every raw payload and every behaviour of the JSON
  decoder, it never ends in an exception: a null payload gives the empty mapping, a text
  that the decoder rejects gives the empty mapping, a mapping that is decoded already is
  returned as it is. In the summary loop, when the store answers the explanation query
  of each of the latest predictions and none of the payloads read decodes to null (a
  null payload, a decoded mapping and a text that the decoder rejects never do), the
  loop ends without error with one summary for each prediction, in order, and the
  summary of a prediction is made of its own payload only: a payload that does not decode
  leaves its own summary without features and the other summaries as they are.
\<close>

theorem parseShapValues_never_throws:
  "(\<exists>v. parseShapValues JSON_parse raw = Inr v)
   \<and> parseShapValues JSON_parse RawNull = Inr (DecodedRecord [])
   \<and> (JSON_parse s = Inl e \<longrightarrow> parseShapValues JSON_parse (RawString s) = Inr (DecodedRecord []))
   \<and> parseShapValues JSON_parse (RawRecord m) = Inr (DecodedRecord m)
   \<and> (list_all (\<lambda>p. error (shapRows p) = None
           \<and> parseShapValues JSON_parse (firstShapValues (shapRows p)) \<noteq> Inr DecodedNull) latest3
        \<longrightarrow> summarize JSON_parse shapRows names latest3 []
              = Inr (map (\<lambda>p. \<lparr>summary_prediction = p,
                                summary_supplier_name = names (supplier_id p),
                                top_features =
                                  topFeatures (case parseShapValues JSON_parse
                                                      (firstShapValues (shapRows p)) of
                                                 Inr (DecodedRecord d) \<Rightarrow> d | _ \<Rightarrow> [])\<rparr>)
                       latest3))"
proof (intro conjI impI)
  show "\<exists>v. parseShapValues JSON_parse raw = Inr v"
    by (rule parseShapValues_returns)
  show "parseShapValues JSON_parse RawNull = Inr (DecodedRecord [])"
    by (simp add: parseShapValues_def)
  show "parseShapValues JSON_parse (RawString s) = Inr (DecodedRecord [])"
    if "JSON_parse s = Inl e"
    using that by (simp add: parseShapValues_def)
  show "parseShapValues JSON_parse (RawRecord m) = Inr (DecodedRecord m)"
    by (simp add: parseShapValues_def)
  have eq: "summaryOf JSON_parse shapRows names
      = (\<lambda>p. \<lparr>summary_prediction = p, summary_supplier_name = names (supplier_id p),
               top_features =
                 topFeatures (case parseShapValues JSON_parse (firstShapValues (shapRows p)) of
                                Inr (DecodedRecord d) \<Rightarrow> d | _ \<Rightarrow> [])\<rparr>)"
    by (rule ext) (simp add: summaryOf_def decodedEntries_def)
  show "summarize JSON_parse shapRows names latest3 []
              = Inr (map (\<lambda>p. \<lparr>summary_prediction = p,
                                summary_supplier_name = names (supplier_id p),
                                top_features =
                                  topFeatures (case parseShapValues JSON_parse
                                                      (firstShapValues (shapRows p)) of
                                                 Inr (DecodedRecord d) \<Rightarrow> d | _ \<Rightarrow> [])\<rparr>)
                       latest3)"
    if "list_all (\<lambda>p. error (shapRows p) = None
           \<and> parseShapValues JSON_parse (firstShapValues (shapRows p)) \<noteq> Inr DecodedNull) latest3"
    using summarize_append [OF that, of names "[]"] by (simp add: eq)
qed

theorem parseShapValues_never_throws_witness:
  "sampleParse ''null'' = Inr DecodedNull
   \<and> sampleParse ''{not json'' = Inl (SyntaxError ''Unexpected token'')
   \<and> parseShapValues sampleParse (RawString ''{not json'') = Inr (DecodedRecord [])
   \<and> list_all (\<lambda>p. error (sampleShapRows p) = None
          \<and> parseShapValues sampleParse (firstShapValues (sampleShapRows p)) \<noteq> Inr DecodedNull)
        [sampleRow ''E1'' ''2024-02-01'' None, sampleRow ''E2'' ''2024-01-15'' None]
   \<and> summarize sampleParse sampleShapRows (nameById [])
        [sampleRow ''E1'' ''2024-02-01'' None, sampleRow ''E2'' ''2024-01-15'' None] []
       = Inr [\<lparr>summary_prediction = sampleRow ''E1'' ''2024-02-01'' None,
                summary_supplier_name = None, top_features = []\<rparr>,
              \<lparr>summary_prediction = sampleRow ''E2'' ''2024-01-15'' None,
                summary_supplier_name = None,
                top_features = [\<lparr>feature = ''a'', shap = Finite 0.5, direction = increases\<rparr>]\<rparr>]"
proof -
  let ?latest = "[sampleRow ''E1'' ''2024-02-01'' None, sampleRow ''E2'' ''2024-01-15'' None]"
  have n: "sampleParse ''null'' = Inr DecodedNull"
    by (simp add: sampleParse_def)
  have r: "sampleParse ''{not json'' = Inl (SyntaxError ''Unexpected token'')"
    by (simp add: sampleParse_def)
  have p1: "parseShapValues sampleParse (firstShapValues (sampleShapRows (sampleRow ''E1'' ''2024-02-01'' None)))
              = Inr (DecodedRecord [])"
    by (simp add: sampleShapRows_def sampleRow_def firstShapValues_def parseShapValues_def
        sampleParse_def)
  have p2: "parseShapValues sampleParse (firstShapValues (sampleShapRows (sampleRow ''E2'' ''2024-01-15'' None)))
              = Inr (DecodedRecord [(''a'', Finite 0.5)])"
    by (simp add: sampleShapRows_def sampleRow_def firstShapValues_def parseShapValues_def)
  have a: "list_all (\<lambda>p. error (sampleShapRows p) = None
          \<and> parseShapValues sampleParse (firstShapValues (sampleShapRows p)) \<noteq> Inr DecodedNull) ?latest"
    using p1 p2 by (simp add: sampleShapRows_def)
  have nm: "nameById [] = (\<lambda>s. None)"
    by (simp add: nameById_def)
  from parseShapValues_never_throws
    [of sampleParse RawNull "''{not json''" "SyntaxError ''Unexpected token''" "[]"
        sampleShapRows ?latest "nameById []"] r a
  have dec: "parseShapValues sampleParse (RawString ''{not json'') = Inr (DecodedRecord [])"
    and out: "summarize sampleParse sampleShapRows (nameById []) ?latest []
       = Inr (map (\<lambda>p. \<lparr>summary_prediction = p,
                                summary_supplier_name = nameById [] (supplier_id p),
                                top_features =
                                  topFeatures (case parseShapValues sampleParse
                                                      (firstShapValues (sampleShapRows p)) of
                                                 Inr (DecodedRecord d) \<Rightarrow> d | _ \<Rightarrow> [])\<rparr>)
                       ?latest)"
    by blast+
  have m: "map (\<lambda>p. \<lparr>summary_prediction = p,
                                summary_supplier_name = nameById [] (supplier_id p),
                                top_features =
                                  topFeatures (case parseShapValues sampleParse
                                                      (firstShapValues (sampleShapRows p)) of
                                                 Inr (DecodedRecord d) \<Rightarrow> d | _ \<Rightarrow> [])\<rparr>)
                       ?latest
       = [\<lparr>summary_prediction = sampleRow ''E1'' ''2024-02-01'' None,
                summary_supplier_name = None, top_features = []\<rparr>,
              \<lparr>summary_prediction = sampleRow ''E2'' ''2024-01-15'' None,
                summary_supplier_name = None,
                top_features = [\<lparr>feature = ''a'', shap = Finite 0.5, direction = increases\<rparr>]\<rparr>]"
    by (simp add: p1 p2 nm topFeatures_def toEntries_def Number_def jsSort_def
        withDirection_def)
  from out have "summarize sampleParse sampleShapRows (nameById []) ?latest []
       = Inr [\<lparr>summary_prediction = sampleRow ''E1'' ''2024-02-01'' None,
                summary_supplier_name = None, top_features = []\<rparr>,
              \<lparr>summary_prediction = sampleRow ''E2'' ''2024-01-15'' None,
                summary_supplier_name = None,
                top_features = [\<lparr>feature = ''a'', shap = Finite 0.5, direction = increases\<rparr>]\<rparr>]"
    by (simp only: m)
  with n r dec a show ?thesis by blast
qed

text \<open>
  A payload text that decodes to null is decoded without an exception, to null; the
  summary loop then fails at \<open>Object.entries\<close>, for all the predictions.
\<close>

lemma summarize_null_text:
  "parseShapValues sampleParse (RawString ''null'') = Inr DecodedNull
   \<and> summarize sampleParse nullTextShapRows (nameById [])
        [sampleRow ''E2'' ''2024-01-15'' None, sampleRow ''E1'' ''2024-02-01'' None] []
       = Inl (TypeError ''Cannot convert undefined or null to object'')"
  by (simp add: nullTextShapRows_def sampleRow_def firstShapValues_def parseShapValues_def
      sampleParse_def)


section \<open>Unscored rows\<close>

lemma unpredictedFilter_iff:
  "(unpredictedFilter r = SqlTrue) = (is_predicted r = Some False \<or> is_predicted r = None)"
  by (cases "is_predicted r") (auto simp: unpredictedFilter_def)

text \<open>
  C10. The count of unscored rows that the operation returns is the number of rows whose
  flag is false or null: a row whose flag was never set is counted, a row whose flag is
  true is not. Of three rows with the flags null, true and false it counts two.
\<close>

theorem unpredicted_count_includes_null:
  "getUnpredictedCount (countUnpredicted table)
     = Inr (length (filter (\<lambda>r. is_predicted r = Some False \<or> is_predicted r = None) table))
   \<and> getUnpredictedCount (countUnpredicted
         [\<lparr>is_predicted = None\<rparr>, \<lparr>is_predicted = Some True\<rparr>, \<lparr>is_predicted = Some False\<rparr>])
       = Inr 2"
  by (simp add: getUnpredictedCount_def countUnpredicted_def unpredictedFilter_iff)

section \<open>Trigger: the response that reports nothing to do\<close>

text \<open>
  C4, as the specification states it: a response that is not 2xx and whose error text
  contains "no new rows" in any letter case is a success. The error text "NO NEW ROWS"
  contains it when letter case is ignored, and the client reports a failure.
\<close>

theorem trigger_upper_case_counterexample:
  "\<not> response_ok 400
   \<and> errorMsgOf 400 (readBody (decodeTo (JObject [(''detail'', JString ''NO NEW ROWS'')]))
        (Some ''body'')) = JString ''NO NEW ROWS''
   \<and> includes_str (toLowerCase ''NO NEW ROWS'') ''no new rows''
   \<and> \<not> success (triggerPredictionDag (decodeTo (JObject [(''detail'', JString ''NO NEW ROWS'')]))
          (Response 400 (Some ''body'')))"
  by (simp add: triggerPredictionDag_def response_ok_def readBody_def errorMsgOf_def
      decodeTo_def toLowerCase_def toLowerCaseChar_def Let_def)

text \<open>
  C4, amended. For a response that is not 2xx and whose error text is a string, the
  outcome is a success exactly when the text contains "No new rows to predict" or
  "no new rows", compared letter for letter; the outcome is then the informational
  message with the decoded body.
\<close>

theorem trigger_no_new_rows:
  assumes "\<not> response_ok status"
    and "errorMsgOf status (readBody JSON_parse text) = JString msg"
  shows "success (triggerPredictionDag JSON_parse (Response status text))
           = (includes_str msg ''No new rows to predict'' \<or> includes_str msg ''no new rows'')
     \<and> (includes_str msg ''No new rows to predict'' \<or> includes_str msg ''no new rows'' \<longrightarrow>
          triggerPredictionDag JSON_parse (Response status text)
            = \<lparr>success = True,
               message = JString ''No new rows to predict (INFO: all rows already processed)'',
               details = readBody JSON_parse text\<rparr>)"
proof -
  let ?a = "includes_str msg ''No new rows to predict''"
  let ?b = "includes_str msg ''no new rows''"
  have 1: "success (triggerPredictionDag JSON_parse (Response status text)) = (?a \<or> ?b)"
    using assms
    by (cases ?a; cases ?b) (simp_all add: triggerPredictionDag_def Let_def noNewRows_def)
  have 2: "triggerPredictionDag JSON_parse (Response status text)
            = \<lparr>success = True,
               message = JString ''No new rows to predict (INFO: all rows already processed)'',
               details = readBody JSON_parse text\<rparr>" if "?a \<or> ?b"
    using assms that
    by (cases ?a; cases ?b) (simp_all add: triggerPredictionDag_def Let_def noNewRows_def)
  from 1 2 show ?thesis by blast
qed

theorem trigger_no_new_rows_witness:
  "\<not> response_ok 400
   \<and> errorMsgOf 400 (readBody (decodeTo (JObject [(''detail'', JString ''No new rows to predict'')]))
        (Some ''body'')) = JString ''No new rows to predict''
   \<and> triggerPredictionDag (decodeTo (JObject [(''detail'', JString ''No new rows to predict'')]))
        (Response 400 (Some ''body''))
       = \<lparr>success = True,
          message = JString ''No new rows to predict (INFO: all rows already processed)'',
          details = JObject [(''detail'', JString ''No new rows to predict'')]\<rparr>"
proof -
  let ?parse = "decodeTo (JObject [(''detail'', JString ''No new rows to predict'')])"
  have h1: "\<not> response_ok 400"
    by (simp add: response_ok_def)
  have h2: "errorMsgOf 400 (readBody ?parse (Some ''body'')) = JString ''No new rows to predict''"
    by (simp add: errorMsgOf_def readBody_def decodeTo_def)
  have h3: "includes_str ''No new rows to predict'' ''No new rows to predict''"
    by simp
  have b: "readBody ?parse (Some ''body'') = JObject [(''detail'', JString ''No new rows to predict'')]"
    by (simp add: readBody_def decodeTo_def)
  from trigger_no_new_rows [OF h1 h2] h3 b h1 h2 show ?thesis by simp
qed

text \<open>A response without a usable body fails with the status as its message.\<close>

lemma trigger_http_status_example:
  "triggerPredictionDag rejectAll (Response 503 (Some ''<html>''))
     = \<lparr>success = False, message = JString ''HTTP 503'', details = JObject []\<rparr>"
  by (simp add: triggerPredictionDag_def response_ok_def readBody_def errorMsgOf_def Let_def
      rejectAll_def showNat.simps digitChar_def)

section \<open>Polling: the timeout\<close>

lemma poll_nonTerminal_step:
  assumes "nonTerminal (replies (Suc attempts))"
  shows "\<exists>s. poll replies t attempts trace =
      (if Suc attempts < maxAttempts
       then poll replies t (Suc attempts)
              (trace @ [FetchStatus (Suc attempts), SetDagStatus s, SetTimeout 5000])
       else (Suc attempts, trace @ [FetchStatus (Suc attempts), SetDagStatus s] @ timedOut))"
proof (cases "replies (Suc attempts)")
  case PollThrows
  with assms show ?thesis by (simp add: nonTerminal_def)
next
  case (PollBody ok run)
  with assms obtain r where r: "run = Some r" "ok" "state r = ''running'' \<or> state r = ''queued''"
    by (auto simp: nonTerminal_def split: option.splits)
  show ?thesis
    apply (rule exI [of _ "state r"])
    apply (subst poll.simps)
    using r PollBody by (auto simp: Let_def timedOut_def)
qed

lemma poll_all_nonTerminal:
  assumes "\<forall>n. nonTerminal (replies n)"
  shows "attempts < maxAttempts \<Longrightarrow>
    \<exists>mid. poll replies t attempts trace = (maxAttempts, trace @ mid @ timedOut)
      \<and> list_all quiet mid
      \<and> length (filter isFetch mid) = maxAttempts - attempts"
proof (induction "maxAttempts - attempts" arbitrary: attempts trace)
  case 0
  then show ?case by simp
next
  case (Suc k)
  from assms have nt: "nonTerminal (replies (Suc attempts))" by simp
  from poll_nonTerminal_step [of replies attempts t trace] nt obtain s where
    step: "poll replies t attempts trace =
      (if Suc attempts < maxAttempts
       then poll replies t (Suc attempts)
              (trace @ [FetchStatus (Suc attempts), SetDagStatus s, SetTimeout 5000])
       else (Suc attempts, trace @ [FetchStatus (Suc attempts), SetDagStatus s] @ timedOut))"
    by blast
  show ?case
  proof (cases "Suc attempts < maxAttempts")
    case True
    have k: "k = maxAttempts - Suc attempts" using Suc.hyps(2) by simp
    from Suc.hyps(1) [OF k True,
        of "trace @ [FetchStatus (Suc attempts), SetDagStatus s, SetTimeout 5000]"]
    obtain mid where mid:
      "poll replies t (Suc attempts)
           (trace @ [FetchStatus (Suc attempts), SetDagStatus s, SetTimeout 5000])
         = (maxAttempts,
            (trace @ [FetchStatus (Suc attempts), SetDagStatus s, SetTimeout 5000]) @ mid @ timedOut)"
      "list_all quiet mid"
      "length (filter isFetch mid) = maxAttempts - Suc attempts"
      by blast
    let ?mid = "[FetchStatus (Suc attempts), SetDagStatus s, SetTimeout 5000] @ mid"
    have "poll replies t attempts trace = (maxAttempts, trace @ ?mid @ timedOut)"
      using step True mid(1) by simp
    moreover have "list_all quiet ?mid"
      using mid(2) by (simp add: quiet_def)
    moreover have "length (filter isFetch ?mid) = maxAttempts - attempts"
      using mid(3) True by (simp add: isFetch_def)
    ultimately show ?thesis by blast
  next
    case False
    with Suc.prems have last: "Suc attempts = maxAttempts" by simp
    let ?mid = "[FetchStatus (Suc attempts), SetDagStatus s]"
    have "poll replies t attempts trace = (maxAttempts, trace @ ?mid @ timedOut)"
      using step False last by simp
    moreover have "list_all quiet ?mid" by (simp add: quiet_def)
    moreover have "length (filter isFetch ?mid) = maxAttempts - attempts"
      using last by (simp add: isFetch_def)
    ultimately show ?thesis by blast
  qed
qed

text \<open>
  C5. When every status check reports the run as running or queued, the poll loop ends
  (the function is total) after exactly 60 status checks, in the timeout branch: the
  trace ends with the two calls of that branch, and everything before them is a status
  check, a display of the state or a timer. So the calls of the success branch (the
  refresh of the unscored count, the fetch of the recent predictions, the display of the
  predictions) and the call of the failure branch never happen.
\<close>

theorem poll_times_out_after_60:
  assumes "\<forall>n. nonTerminal (replies n)"
  shows "fst (pollDagStatus replies t) = 60
    \<and> length (filter isFetch (snd (pollDagStatus replies t))) = 60
    \<and> (\<exists>before. snd (pollDagStatus replies t) = before @ timedOut \<and> list_all quiet before)
    \<and> RefreshUnpredicted \<notin> set (snd (pollDagStatus replies t))
    \<and> (\<forall>since. FetchRecentPredictions since \<notin> set (snd (pollDagStatus replies t)))
    \<and> SetShowPredictions True \<notin> set (snd (pollDagStatus replies t))
    \<and> SetTriggerResult False ''DAG run failed. Check Airflow for details.''
         \<notin> set (snd (pollDagStatus replies t))"
proof -
  have "0 < maxAttempts" by (simp add: maxAttempts_def)
  from poll_all_nonTerminal [OF assms this, of t "[SetTimeout 2000]"]
  obtain mid where mid:
    "pollDagStatus replies t = (maxAttempts, [SetTimeout 2000] @ mid @ timedOut)"
    "list_all quiet mid" "length (filter isFetch mid) = maxAttempts"
    by (auto simp: pollDagStatus_def)
  have q: "e \<notin> set mid" if "\<not> quiet e" for e
    using mid(2) that by (auto simp: list_all_iff)
  have before: "list_all quiet ([SetTimeout 2000] @ mid)"
    using mid(2) by (simp add: quiet_def)
  have 1: "fst (pollDagStatus replies t) = 60"
    using mid(1) by (simp add: maxAttempts_def)
  have 2: "length (filter isFetch (snd (pollDagStatus replies t))) = 60"
    using mid(1,3) by (simp add: maxAttempts_def isFetch_def timedOut_def)
  have 3: "\<exists>before. snd (pollDagStatus replies t) = before @ timedOut \<and> list_all quiet before"
    using mid(1) before by (intro exI [of _ "[SetTimeout 2000] @ mid"]) simp
  have 4: "RefreshUnpredicted \<notin> set (snd (pollDagStatus replies t))"
    using mid(1) q [of RefreshUnpredicted] by (simp add: timedOut_def quiet_def)
  have 5: "FetchRecentPredictions since \<notin> set (snd (pollDagStatus replies t))" for since
    using mid(1) q [of "FetchRecentPredictions since"] by (simp add: timedOut_def quiet_def)
  have 6: "SetShowPredictions True \<notin> set (snd (pollDagStatus replies t))"
    using mid(1) q [of "SetShowPredictions True"] by (simp add: timedOut_def quiet_def)
  have 7: "SetTriggerResult False ''DAG run failed. Check Airflow for details.''
         \<notin> set (snd (pollDagStatus replies t))"
    using mid(1) q [of "SetTriggerResult False ''DAG run failed. Check Airflow for details.''"]
    by (simp add: timedOut_def quiet_def)
  from 1 2 3 4 5 6 7 show ?thesis by blast
qed

theorem poll_times_out_after_60_witness:
  "(\<forall>n. nonTerminal (alwaysRunning n))
   \<and> fst (pollDagStatus alwaysRunning ''2024-03-01T10:00:00.000Z'') = 60
   \<and> length (filter isFetch (snd (pollDagStatus alwaysRunning ''2024-03-01T10:00:00.000Z''))) = 60
   \<and> RefreshUnpredicted \<notin> set (snd (pollDagStatus alwaysRunning ''2024-03-01T10:00:00.000Z''))"
proof -
  have h: "\<forall>n. nonTerminal (alwaysRunning n)"
    by (simp add: nonTerminal_def alwaysRunning_def)
  from poll_times_out_after_60 [OF h, of "''2024-03-01T10:00:00.000Z''"] h
  show ?thesis by blast
qed

text \<open>
  The scripted sequence queued, queued, running, success: four status checks, then the
  calls of the success branch.
\<close>

lemma poll_scripted_success:
  "pollDagStatus (scripted [''queued'', ''queued'', ''running'', ''success'']) ''T''
     = (4, [SetTimeout 2000,
            FetchStatus 1, SetDagStatus ''queued'', SetTimeout 5000,
            FetchStatus 2, SetDagStatus ''queued'', SetTimeout 5000,
            FetchStatus 3, SetDagStatus ''running'', SetTimeout 5000,
            FetchStatus 4, SetDagStatus ''success'',
            SetTriggering False, RefreshUnpredicted, FetchRecentPredictions ''T'',
            SetShowPredictions True])"
  by (simp add: pollDagStatus_def poll.simps scripted_def maxAttempts_def Let_def)

end
